theory Spec2Isabelle
  imports Main "HOL-Library.AList" "HOL-Library.Sublist"
begin

section \<open>JavaScript values\<close>

text \<open>
  The server is TypeScript on Node. The values it handles are untyped at run time
  (\<^verbatim>\<open>err: any\<close>, \<^verbatim>\<open>req.body\<close>), so they are modelled as JavaScript values.

  An object has two layers of properties:
  \<^item> \<open>own\<close>: its own enumerable properties, each name once, in enumeration order.
    These are what the object spread \<^verbatim>\<open>{ ...err }\<close> copies.
  \<^item> \<open>hidden\<close>: the properties a read finds but a spread does not copy: those inherited
    through the prototype chain (\<^verbatim>\<open>name\<close> of an \<^verbatim>\<open>Error\<close>) and the own
    non-enumerable ones (\<^verbatim>\<open>message\<close> and \<^verbatim>\<open>stack\<close> of an \<^verbatim>\<open>Error\<close>).

  Objects are ordinary ones: their properties are writable data properties, with no
  accessors. Numbers are integers (status codes, error codes); strings are lists of
  characters. An error value, as the Global Error Responder receives it, is an object:
  what this program forwards or throws is always one.
\<close>

datatype jsval =
    JUndefined
  | JNull
  | JBool bool
  | JNum int
  | JStr string
  | JObj jsobj
and jsobj =
    Object (own: "(string \<times> jsval) list") (hidden: "(string \<times> jsval) list")

text \<open>The engine's exceptions that the code can run into.\<close>

datatype exn = TypeError

text \<open>Truthiness, as \<^verbatim>\<open>!x\<close> and \<^verbatim>\<open>x || y\<close> test it.\<close>

fun truthy :: "jsval \<Rightarrow> bool" where
  "truthy JUndefined = False"
| "truthy JNull = False"
| "truthy (JBool b) = b"
| "truthy (JNum n) = (n \<noteq> 0)"
| "truthy (JStr s) = (s \<noteq> [])"
| "truthy (JObj ob) = True"

text \<open>\<^verbatim>\<open>a || b\<close>\<close>

definition js_or :: "jsval \<Rightarrow> jsval \<Rightarrow> jsval" where
  "js_or a b = (if truthy a then a else b)"

text \<open>
  \<^verbatim>\<open>ob.k\<close> on an object: the own property, else the inherited or non-enumerable one,
  else \<^verbatim>\<open>undefined\<close>.
\<close>

definition get_prop :: "jsobj \<Rightarrow> string \<Rightarrow> jsval" where
  "get_prop ob k =
     (case map_of (own ob) k of
        Some v \<Rightarrow> v
      | None \<Rightarrow> (case map_of (hidden ob) k of Some v \<Rightarrow> v | None \<Rightarrow> JUndefined))"

text \<open>
  \<^verbatim>\<open>ob.k = v\<close>: the own enumerable property is updated in place, or created when the
  name is absent or only inherited. The program assigns \<^verbatim>\<open>statusCode\<close> and \<^verbatim>\<open>status\<close>
  on the error it receives, and \<^verbatim>\<open>message\<close> on a fresh copy only, so it never assigns
  one of the non-enumerable properties that the \<^verbatim>\<open>Error\<close> constructor stores.
\<close>

definition set_prop :: "jsobj \<Rightarrow> string \<Rightarrow> jsval \<Rightarrow> jsobj" where
  "set_prop ob k v = Object (AList.update k v (own ob)) (hidden ob)"

text \<open>\<^verbatim>\<open>{ ...ob }\<close>: a plain object holding the own enumerable properties of \<open>ob\<close>.\<close>

definition spread :: "jsobj \<Rightarrow> jsobj" where
  "spread ob = Object (own ob) []"

text \<open>
  \<^verbatim>\<open>v.k\<close> on any value: a \<^verbatim>\<open>TypeError\<close> on \<^verbatim>\<open>undefined\<close> and \<^verbatim>\<open>null\<close>; the
  primitives have none of the properties this program reads.
\<close>

fun read_prop :: "jsval \<Rightarrow> string \<Rightarrow> exn + jsval" where
  "read_prop JUndefined k = Inl TypeError"
| "read_prop JNull k = Inl TypeError"
| "read_prop (JObj ob) k = Inr (get_prop ob k)"
| "read_prop v k = Inr JUndefined"

text \<open>\<^verbatim>\<open>v?.k\<close>\<close>

fun read_prop_opt :: "jsval \<Rightarrow> string \<Rightarrow> jsval" where
  "read_prop_opt (JObj ob) k = get_prop ob k"
| "read_prop_opt v k = JUndefined"

subsection \<open>Conversion to strings\<close>

definition digit_char :: "nat \<Rightarrow> char" where
  "digit_char d = char_of (48 + d)"

fun decimal :: "nat \<Rightarrow> string" where
  "decimal n = (if n < 10 then [digit_char n] else decimal (n div 10) @ [digit_char (n mod 10)])"

declare decimal.simps [simp del]

text \<open>\<^verbatim>\<open>String(n)\<close> for an integer \<open>n\<close>.\<close>

definition number_to_string :: "int \<Rightarrow> string" where
  "number_to_string i = (if i < 0 then CHR ''-'' # decimal (nat (- i)) else decimal (nat i))"

text \<open>
  \<^verbatim>\<open>String(v)\<close>, as a template literal applies it. An object with no \<^verbatim>\<open>toString\<close> of
  its own prints as \<^verbatim>\<open>[object Object]\<close> (arrays, which print their elements, are not
  told apart from other objects here).
\<close>

fun to_string :: "jsval \<Rightarrow> string" where
  "to_string JUndefined = ''undefined''"
| "to_string JNull = ''null''"
| "to_string (JBool b) = (if b then ''true'' else ''false'')"
| "to_string (JNum n) = number_to_string n"
| "to_string (JStr s) = s"
| "to_string (JObj ob) = ''[object Object]''"

text \<open>\<^verbatim>\<open>s.startsWith(p)\<close>\<close>

definition startsWith :: "string \<Rightarrow> string \<Rightarrow> bool" where
  "startsWith s p = prefix p s"

section \<open>The error model (utils/AppError)\<close>

text \<open>
  \<^verbatim>\<open>new AppError(message, statusCode)\<close>. \<^verbatim>\<open>super(message)\<close> stores the message as a
  non-enumerable property, the three assignments create enumerable ones,
  \<^verbatim>\<open>Error.captureStackTrace\<close> stores the stack text \<open>st\<close> (supplied by the engine),
  and \<^verbatim>\<open>name\<close> is inherited from \<^verbatim>\<open>Error.prototype\<close>.
\<close>

definition AppError :: "string \<Rightarrow> string \<Rightarrow> int \<Rightarrow> jsobj" where
  "AppError st message statusCode =
     Object
       [(''statusCode'', JNum statusCode),
        (''status'',
           JStr (if startsWith (number_to_string statusCode) ''4'' then ''fail'' else ''error'')),
        (''isOperational'', JBool True)]
       [(''message'', JStr message),
        (''stack'', JStr st),
        (''name'', JStr ''Error'')]"

section \<open>Requests, responses and the outcome of a pipeline stage\<close>

text \<open>
  The request context: the \<^verbatim>\<open>Authorization\<close> header as Node delivers it (a string,
  or absent), the parsed body, the identity \<^verbatim>\<open>req.user\<close> (\<^verbatim>\<open>undefined\<close> until the
  Auth Gate sets it) and the original URL.
\<close>

record request =
  authorization :: "string option"
  body :: jsval
  user :: jsval
  originalUrl :: string

text \<open>
  A response is what \<^verbatim>\<open>res.status(code).json(value)\<close> is given (for
  \<^verbatim>\<open>res.send(text)\<close>, the text; the status is 200 where the code sets none).
\<close>

record response =
  status :: jsval
  json :: jsval

text \<open>
  What a middleware or handler does with a request: it responds, calls \<^verbatim>\<open>next()\<close>
  (with the request as it has changed it), calls \<^verbatim>\<open>next(err)\<close> with an error object,
  throws (for an async function: its promise rejects), or has its exception forwarded to
  \<^verbatim>\<open>next\<close>.
\<close>

datatype outcome =
    Responded response
  | Next request
  | NextErr jsobj
  | NextExn exn
  | Threw exn

text \<open>A plain object literal: all its properties are own and enumerable.\<close>

definition literal :: "(string \<times> jsval) list \<Rightarrow> jsval" where
  "literal props = JObj (Object props [])"

section \<open>Async failure capture (utils/catchAsync.ts)\<close>

text \<open>
  \<^verbatim>\<open>Promise.resolve(fn(req, res, next)).catch(next)\<close>: a failure of the handler is
  given to \<^verbatim>\<open>next\<close>; anything else the handler did stands.
\<close>

definition catchAsync :: "(request \<Rightarrow> outcome) \<Rightarrow> request \<Rightarrow> outcome" where
  "catchAsync fn req = (case fn req of Threw e \<Rightarrow> NextExn e | out \<Rightarrow> out)"

section \<open>The Auth Gate (middleware/authMiddleware.ts)\<close>

text \<open>
  \<^verbatim>\<open>s.split(sep)\<close> for a non-empty separator: the pieces between the successive
  occurrences of \<open>sep\<close>, found from the left. \<open>cur\<close> is the piece being read.
\<close>

function split_from :: "string \<Rightarrow> string \<Rightarrow> string \<Rightarrow> string list" where
  "split_from sep cur [] = [cur]"
| "split_from sep cur (c # cs) =
     (if sep \<noteq> [] \<and> prefix sep (c # cs)
      then cur # split_from sep [] (drop (length sep) (c # cs))
      else split_from sep (cur @ [c]) cs)"
  by pat_completeness auto
termination
  by (relation "measure (\<lambda>(sep, cur, s). length s)") auto

definition split :: "string \<Rightarrow> string \<Rightarrow> string list" where
  "split s sep = split_from sep [] s"

text \<open>\<^verbatim>\<open>pieces[i]\<close> on an array of strings: \<^verbatim>\<open>undefined\<close> out of range.\<close>

definition at_index :: "string list \<Rightarrow> nat \<Rightarrow> jsval" where
  "at_index pieces i = (if i < length pieces then JStr (pieces ! i) else JUndefined)"

text \<open>
  The external verifier \<^verbatim>\<open>admin.auth().verifyIdToken\<close>: a parameter of the model. Its
  promise resolves to a value, or it fails with an error (the promise rejects, or the
  call throws: the \<^verbatim>\<open>try\<close> block of the gate catches both alike).
\<close>

datatype verify_result = Resolves jsval | Rejects jsval

definition unauthorized :: "string \<Rightarrow> response" where
  "unauthorized msg =
     \<lparr>status = JNum 401,
      json = literal [(''error'', JStr ''Unauthorized''), (''message'', JStr msg)]\<rparr>"

text \<open>The credential the gate hands to the verifier (line 34).\<close>

definition token_of :: "string \<Rightarrow> jsval" where
  "token_of authHeader = at_index (split authHeader ''Bearer '') 1"

definition firebaseAuthMiddleware :: "(jsval \<Rightarrow> verify_result) \<Rightarrow> request \<Rightarrow> outcome" where
  "firebaseAuthMiddleware verifyIdToken req =
     (case authorization req of
        None \<Rightarrow> Responded (unauthorized ''Missing or invalid authorization token'')
      | Some authHeader \<Rightarrow>
          if authHeader = [] \<or> \<not> startsWith authHeader ''Bearer ''
          then Responded (unauthorized ''Missing or invalid authorization token'')
          else
            (case verifyIdToken (token_of authHeader) of
               Rejects error \<Rightarrow> Responded (unauthorized ''Invalid authorization token'')
             | Resolves decodedToken \<Rightarrow>
                 if \<not> truthy decodedToken
                 then Responded (unauthorized ''Invalid authorization token'')
                 else Next (req\<lparr>user := decodedToken\<rparr>)))"

section \<open>The protected router (modules/protectedRouter.ts, routes/profile)\<close>

text \<open>
  The router runs the Auth Gate first (\<^verbatim>\<open>protectedRouter.use\<close>), for every request
  under its mount, and what follows the gate (a route's handler, or the handlers after
  the router for a request that the router passes on) only when the gate calls
  \<^verbatim>\<open>next()\<close>. The second component records whether that handler was invoked.
\<close>

definition protectedRoute ::
  "(jsval \<Rightarrow> verify_result) \<Rightarrow> (request \<Rightarrow> outcome) \<Rightarrow> request \<Rightarrow> outcome \<times> bool" where
  "protectedRoute verifyIdToken handler req =
     (case firebaseAuthMiddleware verifyIdToken req of
        Next req' \<Rightarrow> (handler req', True)
      | out \<Rightarrow> (out, False))"

text \<open>\<^verbatim>\<open>GET /profile/\<close>\<close>

definition profileRoot :: "string \<Rightarrow> request \<Rightarrow> outcome" where
  "profileRoot st =
     catchAsync (\<lambda>req.
       if \<not> truthy (user req) then NextErr (AppError st ''User not found'' 404)
       else Responded
         \<lparr>status = JNum 200,
          json = literal
            [(''message'',
                JStr ''Profile route is protected and accessible only to authenticated users.''),
             (''user'', user req)]\<rparr>)"

section \<open>The user controller (controllers/userController.ts)\<close>

definition getUserProfile :: "string \<Rightarrow> request \<Rightarrow> outcome" where
  "getUserProfile st =
     catchAsync (\<lambda>req.
       if \<not> truthy (user req) then NextErr (AppError st ''User not authenticated'' 401)
       else Responded
         \<lparr>status = JNum 200,
          json = literal
            [(''status'', JStr ''success''),
             (''data'', literal [(''user'', user req)])]\<rparr>)"

text \<open>
  The destructuring \<^verbatim>\<open>const { name, email } = req.body\<close> throws on a body that is
  \<^verbatim>\<open>undefined\<close> or \<^verbatim>\<open>null\<close>.
\<close>

definition updateUserProfile :: "string \<Rightarrow> request \<Rightarrow> outcome" where
  "updateUserProfile st =
     catchAsync (\<lambda>req.
       case read_prop (body req) ''name'' of
         Inl e \<Rightarrow> Threw e
       | Inr name \<Rightarrow>
          (case read_prop (body req) ''email'' of
             Inl e \<Rightarrow> Threw e
           | Inr email \<Rightarrow>
               if \<not> truthy name \<or> \<not> truthy email
               then NextErr (AppError st ''Please provide name and email'' 400)
               else Responded
                 \<lparr>status = JNum 200,
                  json = literal
                    [(''status'', JStr ''success''),
                     (''data'', literal
                        [(''user'', literal
                            [(''uid'', read_prop_opt (user req) ''uid''),
                             (''name'', name),
                             (''email'', email)])])]\<rparr>))"

section \<open>The application (the 404 handler)\<close>


section \<open>The Global Error Responder (middleware/errorMiddleware)\<close>

definition handleCastError :: "string \<Rightarrow> jsobj \<Rightarrow> jsobj" where
  "handleCastError st err =
     AppError st
       (''Invalid '' @ to_string (get_prop err ''path'') @ '': ''
          @ to_string (get_prop err ''value''))
       400"

subsection \<open>The regular expression of the duplicate-field handler\<close>

abbreviation dquote :: char where "dquote \<equiv> CHR 0x22"
abbreviation squote :: char where "squote \<equiv> CHR 0x27"
abbreviation backslash :: char where "backslash \<equiv> CHR 0x5C"

text \<open>What \<^verbatim>\<open>.\<close> does not match: the line terminators (among the characters below 256).\<close>

definition line_terminator :: "char \<Rightarrow> bool" where
  "line_terminator c \<longleftrightarrow> c = CHR 0x0A \<or> c = CHR 0x0D"

text \<open>
  The rest of the pattern after the opening quote \<open>q\<close>: the lazy repetition of
  an optional backslash and one character, then the back-reference to the quote. The
  alternatives are tried in the order of a backtracking matcher: leave the repetition;
  else one more round that takes a backslash and the character after it; else one more
  round that takes one character. The result is the text matched, closing quote
  included.
\<close>

fun lazy_body :: "char \<Rightarrow> string \<Rightarrow> string option" where
  "lazy_body q [] = None"
| "lazy_body q [c] = (if c = q then Some [c] else None)"
| "lazy_body q (c # d # ds) =
     (if c = q then Some [c]
      else if c = backslash then
        (case (if line_terminator d then None else lazy_body q ds) of
           Some m \<Rightarrow> Some (c # d # m)
         | None \<Rightarrow> (case lazy_body q (d # ds) of Some m \<Rightarrow> Some (c # m) | None \<Rightarrow> None))
      else if line_terminator c then None
      else (case lazy_body q (d # ds) of Some m \<Rightarrow> Some (c # m) | None \<Rightarrow> None))"

text \<open>
  \<^verbatim>\<open>s.match(re)\<close> for the pattern of line 72, reduced to what the code reads of the result:
  \<open>None\<close> is \<^verbatim>\<open>null\<close>, \<open>Some m\<close> a match whose element 0 (the whole match, found at the
  leftmost position where there is one) is \<open>m\<close>.
\<close>

fun regex_match :: "string \<Rightarrow> string option" where
  "regex_match [] = None"
| "regex_match (c # cs) =
     (if c = dquote \<or> c = squote
      then (case lazy_body c cs of Some m \<Rightarrow> Some (c # m) | None \<Rightarrow> regex_match cs)
      else regex_match cs)"

text \<open>
  In the words of the specification, not of the code: the text contains a quoted
  substring, that is a quote character (double or single) that occurs again later in
  the text.
\<close>

fun has_quoted :: "string \<Rightarrow> bool" where
  "has_quoted [] = False"
| "has_quoted (c # cs) = (((c = dquote \<or> c = squote) \<and> c \<in> set cs) \<or> has_quoted cs)"

text \<open>
  \<^verbatim>\<open>err.errmsg.match(...)[0]\<close> throws when \<^verbatim>\<open>errmsg\<close> is not a string (no \<^verbatim>\<open>match\<close> to
  call) and when the match is \<^verbatim>\<open>null\<close>.
\<close>

definition handleDuplicateFieldsError :: "string \<Rightarrow> jsobj \<Rightarrow> exn + jsobj" where
  "handleDuplicateFieldsError st err =
     (case get_prop err ''errmsg'' of
        JStr errmsg \<Rightarrow>
          (case regex_match errmsg of
             None \<Rightarrow> Inl TypeError
           | Some v \<Rightarrow>
               Inr (AppError st
                      (''Duplicate field value: '' @ v @ ''. Please use another value!'') 400))
      | _ \<Rightarrow> Inl TypeError)"

subsection \<open>The other handlers\<close>

text \<open>\<^verbatim>\<open>Object.values(v)\<close>\<close>

fun object_values :: "jsval \<Rightarrow> exn + jsval list" where
  "object_values JUndefined = Inl TypeError"
| "object_values JNull = Inl TypeError"
| "object_values (JObj ob) = Inr (map snd (own ob))"
| "object_values (JStr s) = Inr (map (\<lambda>c. JStr [c]) s)"
| "object_values v = Inr []"

text \<open>\<^verbatim>\<open>vals.map((val) => val.message)\<close>\<close>

fun map_message :: "jsval list \<Rightarrow> exn + jsval list" where
  "map_message [] = Inr []"
| "map_message (val # vals) =
     (case read_prop val ''message'' of
        Inl e \<Rightarrow> Inl e
      | Inr m \<Rightarrow> (case map_message vals of Inl e \<Rightarrow> Inl e | Inr ms \<Rightarrow> Inr (m # ms)))"

text \<open>\<^verbatim>\<open>xs.join(sep)\<close>: \<^verbatim>\<open>undefined\<close> and \<^verbatim>\<open>null\<close> elements print as the empty string.\<close>

fun join_item :: "jsval \<Rightarrow> string" where
  "join_item JUndefined = []"
| "join_item JNull = []"
| "join_item v = to_string v"

fun join :: "jsval list \<Rightarrow> string \<Rightarrow> string" where
  "join [] sep = []"
| "join [x] sep = join_item x"
| "join (x # y # ys) sep = join_item x @ sep @ join (y # ys) sep"

definition handleValidationError :: "string \<Rightarrow> jsobj \<Rightarrow> exn + jsobj" where
  "handleValidationError st err =
     (case object_values (get_prop err ''errors'') of
        Inl e \<Rightarrow> Inl e
      | Inr vals \<Rightarrow>
          (case map_message vals of
             Inl e \<Rightarrow> Inl e
           | Inr errors \<Rightarrow>
               Inr (AppError st (''Invalid input data. '' @ join errors ''. '') 400)))"

definition handleJWTError :: "string \<Rightarrow> jsobj" where
  "handleJWTError st = AppError st ''Invalid token. Please log in again.'' 401"

definition handleJWTExpiredError :: "string \<Rightarrow> jsobj" where
  "handleJWTExpiredError st = AppError st ''Your token has expired! Please log in again.'' 401"

subsection \<open>Sending the response\<close>

definition sendErrorDev :: "jsobj \<Rightarrow> response" where
  "sendErrorDev err =
     \<lparr>status = get_prop err ''statusCode'',
      json = literal
        [(''status'', get_prop err ''status''),
         (''error'', JObj err),
         (''message'', get_prop err ''message''),
         (''stack'', get_prop err ''stack'')]\<rparr>"

definition sendErrorProd :: "jsobj \<Rightarrow> response" where
  "sendErrorProd err =
     (if truthy (get_prop err ''isOperational'')
      then \<lparr>status = get_prop err ''statusCode'',
            json = literal
              [(''status'', get_prop err ''status''),
               (''message'', get_prop err ''message'')]\<rparr>
      else \<lparr>status = JNum 500,
            json = literal
              [(''status'', JStr ''error''),
               (''message'', JStr ''Something went wrong'')]\<rparr>)"

subsection \<open>The handler\<close>

text \<open>Lines 146 and 147: the defaults, written into the error object.\<close>

definition normalize :: "jsobj \<Rightarrow> jsobj" where
  "normalize err =
     (let err1 = set_prop err ''statusCode'' (js_or (get_prop err ''statusCode'') (JNum 500))
      in set_prop err1 ''status'' (js_or (get_prop err1 ''status'') (JStr ''error'')))"

text \<open>
  Lines 152 to 159: the copy of the error and the chain of reclassifications, each
  applied to the result of the one before. An exception in a handler ends the chain.
\<close>

definition reclassify :: "string \<Rightarrow> jsobj \<Rightarrow> exn + jsobj" where
  "reclassify st err =
     (let error0 = set_prop (spread err) ''message'' (get_prop err ''message'');
          error1 = (if get_prop error0 ''name'' = JStr ''CastError''
                    then handleCastError st error0 else error0)
      in case (if get_prop error1 ''code'' = JNum 11000
               then handleDuplicateFieldsError st error1 else Inr error1) of
           Inl e \<Rightarrow> Inl e
         | Inr error2 \<Rightarrow>
            (case (if get_prop error2 ''name'' = JStr ''ValidationError''
                   then handleValidationError st error2 else Inr error2) of
               Inl e \<Rightarrow> Inl e
             | Inr error3 \<Rightarrow>
                 (let error4 = (if get_prop error3 ''name'' = JStr ''JsonWebTokenError''
                                then handleJWTError st else error3);
                      error5 = (if get_prop error4 ''name'' = JStr ''TokenExpiredError''
                                then handleJWTExpiredError st else error4)
                  in Inr error5)))"

text \<open>
  \<open>node_env\<close> is \<^verbatim>\<open>process.env.NODE_ENV\<close>, read at each call. The result is the
  response sent, or the exception that leaves the handler.
\<close>

definition globalErrorHandler :: "string option \<Rightarrow> string \<Rightarrow> jsobj \<Rightarrow> exn + response" where
  "globalErrorHandler node_env st err =
     (let err' = normalize err;
          isProduction = (node_env = Some ''production'')
      in if isProduction
         then (case reclassify st err' of
                 Inl e \<Rightarrow> Inl e
               | Inr error \<Rightarrow> Inr (sendErrorProd error))
         else Inr (sendErrorDev err'))"

section \<open>Properties of objects\<close>

lemma get_prop_set_prop:
  "get_prop (set_prop ob k v) k' = (if k' = k then v else get_prop ob k')"
  by (simp add: get_prop_def set_prop_def update_conv' split: option.split)

lemma own_set_prop: "map_of (own (set_prop ob k v)) = (map_of (own ob))(k \<mapsto> v)"
  by (simp add: set_prop_def update_conv')

lemma get_prop_spread:
  "get_prop (spread ob) k = (case map_of (own ob) k of Some v \<Rightarrow> v | None \<Rightarrow> JUndefined)"
  by (simp add: get_prop_def spread_def split: option.split)

section \<open>Properties of the error model\<close>

lemma decimal_three_digits:
  assumes "100 \<le> n" and "n < 1000"
  shows "decimal n = [digit_char (n div 100), digit_char (n div 10 mod 10), digit_char (n mod 10)]"
proof -
  from assms have a: "\<not> n < 10" and b: "\<not> n div 10 < 10" and c: "n div 10 div 10 < 10"
    by simp_all
  have "decimal n = decimal (n div 10) @ [digit_char (n mod 10)]"
    using a by (subst decimal.simps) simp
  also have "decimal (n div 10) = decimal (n div 10 div 10) @ [digit_char (n div 10 mod 10)]"
    using b by (subst decimal.simps) simp
  also have "decimal (n div 10 div 10) = [digit_char (n div 10 div 10)]"
    using c by (subst decimal.simps) simp
  finally show ?thesis
    by (simp add: div_mult2_eq [symmetric])
qed

lemma char_four: "CHR ''4'' = char_of (52::nat)"
  by code_simp

lemma digit_char_four: "d < 10 \<Longrightarrow> digit_char d = CHR ''4'' \<longleftrightarrow> d = 4"
  by (simp add: digit_char_def char_four char_of_eq_iff take_bit_eq_mod)

lemma status_class:
  assumes "100 \<le> c" and "c \<le> 599"
  shows "startsWith (number_to_string c) ''4'' \<longleftrightarrow> 400 \<le> c \<and> c < 500"
proof -
  define n where "n = nat c"
  from assms have n: "100 \<le> n" "n < 1000" and c: "c = int n"
    by (simp_all add: n_def)
  have d: "n div 100 < 10" using n by simp
  have "startsWith (number_to_string c) ''4'' \<longleftrightarrow> digit_char (n div 100) = CHR ''4''"
    using assms n by (auto simp: number_to_string_def startsWith_def decimal_three_digits n_def)
  also have "\<dots> \<longleftrightarrow> n div 100 = 4"
    using d by (rule digit_char_four)
  also have "\<dots> \<longleftrightarrow> 400 \<le> n \<and> n < 500"
    by arith
  finally show ?thesis
    using c by simp
qed

text \<open>
  C6. An application error constructed with a status code from 100 to 599 has the status
  \<^verbatim>\<open>fail\<close> exactly when the code is in [400, 500), and \<^verbatim>\<open>error\<close> otherwise.
\<close>

theorem AppError_status:
  assumes "100 \<le> c" and "c \<le> 599"
  shows "get_prop (AppError st m c) ''status'' =
           (if 400 \<le> c \<and> c < 500 then JStr ''fail'' else JStr ''error'')"
  using status_class [OF assms] by (simp add: AppError_def get_prop_def)

text \<open>C6 at the codes 404 and 500.\<close>

theorem AppError_status_witness:
  "(100::int) \<le> 404 \<and> (404::int) \<le> 599
   \<and> get_prop (AppError ''at app.ts:23'' ''not found'' 404) ''status'' = JStr ''fail''
   \<and> get_prop (AppError ''at app.ts:23'' ''boom'' 500) ''status'' = JStr ''error''"
  using AppError_status [of 404 "''at app.ts:23''" "''not found''"]
    AppError_status [of 500 "''at app.ts:23''" "''boom''"]
  by simp

lemma AppError_props:
  "get_prop (AppError st m c) ''statusCode'' = JNum c"
  "get_prop (AppError st m c) ''isOperational'' = JBool True"
  "get_prop (AppError st m c) ''message'' = JStr m"
  "get_prop (AppError st m c) ''stack'' = JStr st"
  "get_prop (AppError st m c) ''name'' = JStr ''Error''"
  "get_prop (AppError st m c) ''code'' = JUndefined"
  by (simp_all add: AppError_def get_prop_def)

lemma status_fail_4xx:
  "400 \<le> c \<Longrightarrow> c < 500 \<Longrightarrow> get_prop (AppError st m c) ''status'' = JStr ''fail''"
  using status_class [of c] by (simp add: AppError_def get_prop_def)


section \<open>Properties of the Auth Gate\<close>

text \<open>
  Where the header is absent or does not start with \<^verbatim>\<open>Bearer \<close>, or the verification
  call that the gate makes fails or resolves to no identity, the gate answers 401 with
  one of the two unauthorized messages (the first for the absent or malformed header,
  the second otherwise), and the handler after it is not invoked.
\<close>

lemma gate_answers_401:
  assumes "case authorization req of
             None \<Rightarrow> True
           | Some h \<Rightarrow>
               \<not> startsWith h ''Bearer ''
               \<or> (case verifyIdToken (token_of h) of
                     Rejects e \<Rightarrow> True
                   | Resolves v \<Rightarrow> \<not> truthy v)"
  shows "firebaseAuthMiddleware verifyIdToken req =
           Responded
             \<lparr>status = JNum 401,
              json = literal
                [(''error'', JStr ''Unauthorized''),
                 (''message'',
                    JStr (if (case authorization req of
                                None \<Rightarrow> True
                              | Some h \<Rightarrow> \<not> startsWith h ''Bearer '')
                          then ''Missing or invalid authorization token''
                          else ''Invalid authorization token''))]\<rparr>
         \<and> protectedRoute verifyIdToken handler req =
             (firebaseAuthMiddleware verifyIdToken req, False)"
proof (cases "authorization req")
  case None
  then show ?thesis
    by (simp add: firebaseAuthMiddleware_def protectedRoute_def unauthorized_def)
next
  case (Some h)
  show ?thesis
  proof (cases "startsWith h ''Bearer ''")
    case False
    with Some show ?thesis
      by (simp add: firebaseAuthMiddleware_def protectedRoute_def unauthorized_def)
  next
    case True
    then have "h \<noteq> []"
      by (auto simp: startsWith_def)
    with True Some assms show ?thesis
      by (auto simp: firebaseAuthMiddleware_def protectedRoute_def unauthorized_def
          split: verify_result.splits)
  qed
qed

text \<open>
  C1. The claim is that a request whose header carries a credential that the verifier
  rejects is answered 401 and never reaches the handler. The credential a request
  carries is the text after the \<^verbatim>\<open>Bearer \<close> prefix; the gate verifies the second piece
  of \<^verbatim>\<open>authHeader.split('Bearer ')\<close> instead (line 34). For the header
  \<^verbatim>\<open>Bearer goodBearer x\<close> and a verifier that accepts the token \<^verbatim>\<open>good\<close> alone, the
  text after the prefix is \<^verbatim>\<open>goodBearer x\<close>, which the verifier rejects, yet the gate
  verifies \<^verbatim>\<open>good\<close>, attaches the identity and calls the next stage, and the handler
  runs.
\<close>

theorem gate_passes_rejected_credential:
  "drop (length ''Bearer '') ''Bearer goodBearer x'' = ''goodBearer x''
   \<and> (\<lambda>t. if t = JStr ''good'' then Resolves (literal [(''uid'', JStr ''u1'')])
            else Rejects (JStr ''bad token'')) (JStr ''goodBearer x'')
       = Rejects (JStr ''bad token'')
   \<and> token_of ''Bearer goodBearer x'' = JStr ''good''
   \<and> firebaseAuthMiddleware
       (\<lambda>t. if t = JStr ''good'' then Resolves (literal [(''uid'', JStr ''u1'')])
             else Rejects (JStr ''bad token''))
       \<lparr>authorization = Some ''Bearer goodBearer x'', body = JUndefined, user = JUndefined,
        originalUrl = ''/profile/details''\<rparr>
     = Next
         \<lparr>authorization = Some ''Bearer goodBearer x'', body = JUndefined,
          user = literal [(''uid'', JStr ''u1'')], originalUrl = ''/profile/details''\<rparr>
   \<and> protectedRoute
       (\<lambda>t. if t = JStr ''good'' then Resolves (literal [(''uid'', JStr ''u1'')])
             else Rejects (JStr ''bad token''))
       (getUserProfile ''trace'')
       \<lparr>authorization = Some ''Bearer goodBearer x'', body = JUndefined, user = JUndefined,
        originalUrl = ''/profile/details''\<rparr>
     = (Responded
          \<lparr>status = JNum 200,
           json = literal
             [(''status'', JStr ''success''),
              (''data'', literal [(''user'', literal [(''uid'', JStr ''u1'')])])]\<rparr>,
        True)"
proof -
  have token: "token_of ''Bearer goodBearer x'' = JStr ''good''"
    by (simp add: token_of_def split_def at_index_def)
  show ?thesis
    by (simp add: token firebaseAuthMiddleware_def protectedRoute_def getUserProfile_def
        catchAsync_def startsWith_def literal_def)
qed

text \<open>
  C2. When the header starts with \<^verbatim>\<open>Bearer \<close> and the verifier resolves to a non-empty
  identity, the gate attaches exactly that identity to the request and calls the next
  stage: the route's handler runs on the request that holds it, reads the verifier's
  subject id from it, and \<^verbatim>\<open>GET /profile/details\<close> echoes the identity.
\<close>

theorem auth_gate_accepts:
  assumes "authorization req = Some h"
    and "startsWith h ''Bearer ''"
    and "verifyIdToken (token_of h) = Resolves decoded"
    and "truthy decoded"
  shows "firebaseAuthMiddleware verifyIdToken req = Next (req\<lparr>user := decoded\<rparr>)
         \<and> protectedRoute verifyIdToken handler req = (handler (req\<lparr>user := decoded\<rparr>), True)
         \<and> read_prop_opt (user (req\<lparr>user := decoded\<rparr>)) ''uid'' = read_prop_opt decoded ''uid''
         \<and> protectedRoute verifyIdToken (getUserProfile st) req =
             (Responded
                \<lparr>status = JNum 200,
                 json = literal
                   [(''status'', JStr ''success''), (''data'', literal [(''user'', decoded)])]\<rparr>,
              True)"
proof -
  from assms(2) have "h \<noteq> []"
    by (auto simp: startsWith_def)
  with assms have gate: "firebaseAuthMiddleware verifyIdToken req = Next (req\<lparr>user := decoded\<rparr>)"
    by (simp add: firebaseAuthMiddleware_def)
  then show ?thesis
    using assms(4) by (simp add: protectedRoute_def getUserProfile_def catchAsync_def)
qed

text \<open>C2 at a verifier that knows the token \<^verbatim>\<open>abc\<close>.\<close>

theorem auth_gate_accepts_witness:
  "protectedRoute
     (\<lambda>t. if t = JStr ''abc'' then Resolves (literal [(''uid'', JStr ''u1'')])
           else Rejects (JStr ''bad token''))
     (getUserProfile ''trace'')
     \<lparr>authorization = Some ''Bearer abc'', body = JUndefined, user = JUndefined,
      originalUrl = ''/profile/details''\<rparr>
   = (Responded
        \<lparr>status = JNum 200,
         json = literal
           [(''status'', JStr ''success''),
            (''data'', literal [(''user'', literal [(''uid'', JStr ''u1'')])])]\<rparr>,
      True)"
proof -
  let ?req = "\<lparr>authorization = Some ''Bearer abc'', body = JUndefined, user = JUndefined,
               originalUrl = ''/profile/details''\<rparr>"
  let ?verify = "\<lambda>t. if t = JStr ''abc'' then Resolves (literal [(''uid'', JStr ''u1'')])
                     else Rejects (JStr ''bad token'')"
  have header: "authorization ?req = Some ''Bearer abc''"
    and scheme: "startsWith ''Bearer abc'' ''Bearer ''"
    and verified: "?verify (token_of ''Bearer abc'') = Resolves (literal [(''uid'', JStr ''u1'')])"
    and identity: "truthy (literal [(''uid'', JStr ''u1'')])"
    by (simp_all add: startsWith_def token_of_def split_def at_index_def literal_def)
  from auth_gate_accepts
      [where req = ?req and h = "''Bearer abc''" and verifyIdToken = ?verify
         and decoded = "literal [(''uid'', JStr ''u1'')]"
         and handler = "getUserProfile ''trace''" and st = "''trace''"]
    header scheme verified identity
  show ?thesis
    by blast
qed

subsection \<open>The credential handed to the verifier\<close>

lemma split_from_no_occurrence:
  "\<forall>i. \<not> prefix sep (drop i s) \<Longrightarrow> split_from sep cur s = [cur @ s]"
proof (induction s arbitrary: cur)
  case Nil
  then show ?case by simp
next
  case (Cons c cs)
  from Cons.prems have here: "\<not> prefix sep (c # cs)"
    by (metis drop0)
  have later: "\<forall>i. \<not> prefix sep (drop i cs)"
  proof
    fix i
    from Cons.prems have "\<not> prefix sep (drop (Suc i) (c # cs))" by blast
    then show "\<not> prefix sep (drop i cs)" by simp
  qed
  show ?case
    using here Cons.IH [OF later] by simp
qed

text \<open>
  Where the text after the prefix holds no further \<^verbatim>\<open>Bearer \<close>, the credential is that
  text.
\<close>

lemma token_of_plain:
  assumes "\<forall>i. \<not> prefix ''Bearer '' (drop i t)"
  shows "token_of (''Bearer '' @ t) = JStr t"
proof -
  have "split_from ''Bearer '' [] (''Bearer '' @ t) = [] # split_from ''Bearer '' [] t"
    by simp
  then show ?thesis
    using split_from_no_occurrence [OF assms, of "[]"]
    by (simp add: token_of_def split_def at_index_def)
qed

text \<open>
  So a credential with no \<^verbatim>\<open>Bearer \<close> inside that the verifier rejects, or for which
  it yields no identity, is answered 401 and the handler is not invoked.
\<close>

lemma gate_rejects_plain_credential:
  assumes "authorization req = Some (''Bearer '' @ t)"
    and "\<forall>i. \<not> prefix ''Bearer '' (drop i t)"
    and "case verifyIdToken (JStr t) of Rejects e \<Rightarrow> True | Resolves v \<Rightarrow> \<not> truthy v"
  shows "protectedRoute verifyIdToken handler req =
           (Responded
              \<lparr>status = JNum 401,
               json = literal
                 [(''error'', JStr ''Unauthorized''),
                  (''message'', JStr ''Invalid authorization token'')]\<rparr>,
            False)"
proof -
  have "startsWith (''Bearer '' @ t) ''Bearer ''"
    by (simp add: startsWith_def)
  then show ?thesis
    using assms(1,3) token_of_plain [OF assms(2)]
      gate_answers_401 [where req = req and verifyIdToken = verifyIdToken and handler = handler]
    by simp
qed

text \<open>
  C8. The claim is that the credential is the text after the \<^verbatim>\<open>Bearer \<close> prefix for
  every token, also one that contains \<^verbatim>\<open>Bearer \<close> itself. The code splits the header at
  every occurrence of \<^verbatim>\<open>Bearer \<close> and takes the second piece: for the header
  \<^verbatim>\<open>Bearer a Bearer b\<close> the verifier is given \<^verbatim>\<open>a \<close>, not \<^verbatim>\<open>a Bearer b\<close>, and for
  \<^verbatim>\<open>Bearer Bearer x\<close> the empty string.
\<close>

theorem token_of_repeated_scheme:
  "token_of ''Bearer a Bearer b'' = JStr ''a ''
   \<and> token_of ''Bearer a Bearer b'' \<noteq> JStr ''a Bearer b''
   \<and> token_of ''Bearer Bearer x'' = JStr []"
  by (simp add: token_of_def split_def at_index_def)

section \<open>Properties of the route handlers\<close>

text \<open>
  C7, as amended. For a \<^verbatim>\<open>PUT /profile/update\<close> request that carries an identity and
  whose parsed body is an object: when \<^verbatim>\<open>name\<close> and \<^verbatim>\<open>email\<close> are both truthy the
  handler responds 200 with exactly \<^verbatim>\<open>{status: "success", data: {user: {uid, name, email}}}\<close>,
  \<^verbatim>\<open>uid\<close> being the identity's subject id and the other two the body's fields; when
  either is missing or falsy (empty string, 0, false, null) it sends no response and
  forwards a 400 application error with the message \<^verbatim>\<open>Please provide name and email\<close>.
\<close>

theorem updateUserProfile_outcome:
  assumes "user req = JObj identity" and "body req = JObj b"
  shows "updateUserProfile st req =
           (if truthy (get_prop b ''name'') \<and> truthy (get_prop b ''email'')
            then Responded
              \<lparr>status = JNum 200,
               json = literal
                 [(''status'', JStr ''success''),
                  (''data'', literal
                     [(''user'', literal
                         [(''uid'', get_prop identity ''uid''),
                          (''name'', get_prop b ''name''),
                          (''email'', get_prop b ''email'')])])]\<rparr>
            else NextErr (AppError st ''Please provide name and email'' 400))"
  using assms by (simp add: updateUserProfile_def catchAsync_def)

text \<open>C7 at the round trip of the specification, and at a body without \<^verbatim>\<open>email\<close>.\<close>

theorem updateUserProfile_outcome_witness:
  "updateUserProfile ''trace''
     \<lparr>authorization = Some ''Bearer good'',
      body = literal [(''name'', JStr ''Ann''), (''email'', JStr ''ann@x.com'')],
      user = literal [(''uid'', JStr ''u1'')],
      originalUrl = ''/profile/update''\<rparr>
   = Responded
       \<lparr>status = JNum 200,
        json = literal
          [(''status'', JStr ''success''),
           (''data'', literal
              [(''user'', literal
                  [(''uid'', JStr ''u1''),
                   (''name'', JStr ''Ann''),
                   (''email'', JStr ''ann@x.com'')])])]\<rparr>
   \<and> updateUserProfile ''trace''
     \<lparr>authorization = Some ''Bearer good'',
      body = literal [(''name'', JStr ''Ann'')],
      user = literal [(''uid'', JStr ''u1'')],
      originalUrl = ''/profile/update''\<rparr>
   = NextErr (AppError ''trace'' ''Please provide name and email'' 400)"
  using updateUserProfile_outcome
      [of "\<lparr>authorization = Some ''Bearer good'',
            body = literal [(''name'', JStr ''Ann''), (''email'', JStr ''ann@x.com'')],
            user = literal [(''uid'', JStr ''u1'')],
            originalUrl = ''/profile/update''\<rparr>"
          "Object [(''uid'', JStr ''u1'')] []"
          "Object [(''name'', JStr ''Ann''), (''email'', JStr ''ann@x.com'')] []"
          "''trace''"]
    updateUserProfile_outcome
      [of "\<lparr>authorization = Some ''Bearer good'',
            body = literal [(''name'', JStr ''Ann'')],
            user = literal [(''uid'', JStr ''u1'')],
            originalUrl = ''/profile/update''\<rparr>"
          "Object [(''uid'', JStr ''u1'')] []"
          "Object [(''name'', JStr ''Ann'')] []"
          "''trace''"]
  by (simp add: literal_def get_prop_def)

text \<open>
  C7 as it was stated fails where both fields are present and one is falsy: with the
  body \<^verbatim>\<open>{name: "", email: "ann@x.com"}\<close> the handler forwards the 400 error.
\<close>

theorem updateUserProfile_empty_name:
  "updateUserProfile ''trace''
     \<lparr>authorization = Some ''Bearer good'',
      body = literal [(''name'', JStr ''''), (''email'', JStr ''ann@x.com'')],
      user = literal [(''uid'', JStr ''u1'')],
      originalUrl = ''/profile/update''\<rparr>
   = NextErr (AppError ''trace'' ''Please provide name and email'' 400)"
  by (simp add: updateUserProfile_def catchAsync_def literal_def get_prop_def)

section \<open>Properties of the Global Error Responder\<close>

subsection \<open>The regular expression\<close>

lemma lazy_body_closes: "lazy_body q r = Some m \<Longrightarrow> q \<in> set r"
  by (induction q r arbitrary: m rule: lazy_body.induct)
    (auto split: if_splits option.splits)

text \<open>A match needs a quoted substring.\<close>

lemma regex_match_quoted: "regex_match s = Some m \<Longrightarrow> has_quoted s"
  by (induction s arbitrary: m) (auto split: if_splits option.splits dest: lazy_body_closes)

lemma lazy_body_at_quote: "lazy_body q (q # r) = Some [q]"
  by (cases r) simp_all

lemma lazy_body_finds:
  assumes "q \<in> set r" and "\<forall>c \<in> set r. \<not> line_terminator c"
  shows "lazy_body q r \<noteq> None"
  using assms
proof (induction r)
  case Nil
  then show ?case by simp
next
  case (Cons c r)
  show ?case
  proof (cases "c = q")
    case True
    then show ?thesis by (simp add: lazy_body_at_quote)
  next
    case False
    with Cons.prems have "q \<in> set r" and "\<forall>c \<in> set r. \<not> line_terminator c"
      by simp_all
    then have rest: "lazy_body q r \<noteq> None"
      by (rule Cons.IH)
    then obtain d ds where r: "r = d # ds"
      by (cases r) auto
    from Cons.prems have "\<not> line_terminator c"
      by simp
    with False rest show ?thesis
      unfolding r by (auto split: option.splits)
  qed
qed

text \<open>On a text of one line, a quoted substring is also enough for a match.\<close>

lemma regex_match_finds:
  "has_quoted s \<Longrightarrow> \<forall>c \<in> set s. \<not> line_terminator c \<Longrightarrow> regex_match s \<noteq> None"
  by (induction s) (auto split: option.splits dest: lazy_body_finds)

subsection \<open>The copy of the error\<close>

lemma normalize_statusCode:
  "get_prop (normalize err) ''statusCode'' = js_or (get_prop err ''statusCode'') (JNum 500)"
  by (simp add: normalize_def Let_def get_prop_set_prop)

lemma normalize_status:
  "get_prop (normalize err) ''status'' = js_or (get_prop err ''status'') (JStr ''error'')"
  by (simp add: normalize_def Let_def get_prop_set_prop)

lemma normalize_other:
  "k \<noteq> ''statusCode'' \<Longrightarrow> k \<noteq> ''status'' \<Longrightarrow> get_prop (normalize err) k = get_prop err k"
  by (simp add: normalize_def Let_def get_prop_set_prop)

lemma own_normalize:
  "map_of (own (normalize err)) =
     (map_of (own err))
       (''statusCode'' \<mapsto> js_or (get_prop err ''statusCode'') (JNum 500),
        ''status'' \<mapsto> js_or (get_prop err ''status'') (JStr ''error''))"
  by (simp add: normalize_def Let_def own_set_prop get_prop_set_prop)

text \<open>
  The copy of line 152 and 153 has the own enumerable properties of the error, the
  defaults included, and its message; what the error only inherits is not in it.
\<close>

lemma copy_get:
  "k \<noteq> ''message'' \<Longrightarrow> k \<noteq> ''statusCode'' \<Longrightarrow> k \<noteq> ''status'' \<Longrightarrow>
   get_prop (set_prop (spread (normalize err)) ''message'' v) k =
     (case map_of (own err) k of Some v \<Rightarrow> v | None \<Rightarrow> JUndefined)"
  by (simp add: get_prop_set_prop get_prop_spread own_normalize)

lemma copy_statusCode:
  "get_prop (set_prop (spread (normalize err)) ''message'' v) ''statusCode'' =
     js_or (get_prop err ''statusCode'') (JNum 500)"
  by (simp add: get_prop_set_prop get_prop_spread own_normalize)

lemma copy_status:
  "get_prop (set_prop (spread (normalize err)) ''message'' v) ''status'' =
     js_or (get_prop err ''status'') (JStr ''error'')"
  by (simp add: get_prop_set_prop get_prop_spread own_normalize)

lemma copy_message: "get_prop (set_prop ob ''message'' v) ''message'' = v"
  by (simp add: get_prop_set_prop)

subsection \<open>The reclassification\<close>


text \<open>An error that no rule matches is passed on as its copy.\<close>

lemma reclassify_unmatched:
  assumes "map_of (own err) ''name'' \<noteq> Some (JStr ''CastError'')"
    and "map_of (own err) ''name'' \<noteq> Some (JStr ''ValidationError'')"
    and "map_of (own err) ''name'' \<noteq> Some (JStr ''JsonWebTokenError'')"
    and "map_of (own err) ''name'' \<noteq> Some (JStr ''TokenExpiredError'')"
    and "map_of (own err) ''code'' \<noteq> Some (JNum 11000)"
  shows "reclassify st (normalize err) =
           Inr (set_prop (spread (normalize err)) ''message'' (get_prop err ''message''))"
proof -
  let ?copy = "set_prop (spread (normalize err)) ''message'' (get_prop (normalize err) ''message'')"
  have "get_prop ?copy ''name'' \<noteq> JStr ''CastError''"
    and "get_prop ?copy ''name'' \<noteq> JStr ''ValidationError''"
    and "get_prop ?copy ''name'' \<noteq> JStr ''JsonWebTokenError''"
    and "get_prop ?copy ''name'' \<noteq> JStr ''TokenExpiredError''"
    and "get_prop ?copy ''code'' \<noteq> JNum 11000"
    using assms by (auto simp: copy_get split: option.splits)
  then show ?thesis
    by (simp add: reclassify_def Let_def normalize_other)
qed

lemma reclassify_AppError:
  "reclassify st' (normalize (AppError st m c)) =
     Inr (set_prop (spread (normalize (AppError st m c))) ''message'' (JStr m))"
  using reclassify_unmatched [of "AppError st m c" st']
  by (simp add: AppError_props) (simp add: AppError_def)

lemma sendErrorProd_AppError:
  "sendErrorProd (AppError st m c) =
     \<lparr>status = JNum c,
      json = literal
        [(''status'', get_prop (AppError st m c) ''status''), (''message'', JStr m)]\<rparr>"
  by (simp add: sendErrorProd_def AppError_props)

subsection \<open>The defaults\<close>



subsection \<open>The two modes\<close>

text \<open>
  C3, as amended. In production mode the responder answers for the error as the
  reclassification leaves it: when that error is marked operational, with its status
  code and a body of exactly \<^verbatim>\<open>{status, message}\<close>; when it is not, with 500 and exactly
  \<^verbatim>\<open>{status: "error", message: "Something went wrong"}\<close>; in neither case has the body
  a stack or the error object. For an error that no reclassification rule matches, this
  is the error received: its own enumerable \<^verbatim>\<open>isOperational\<close> decides, and the status
  code, status and message sent are its own, defaults applied. In any other mode the
  response to the same error has the error object and the stack.
\<close>

theorem production_and_development_response:
  "(\<forall>error. reclassify st (normalize err) = Inr error \<longrightarrow>
      globalErrorHandler (Some ''production'') st err =
        Inr (if truthy (get_prop error ''isOperational'')
             then \<lparr>status = get_prop error ''statusCode'',
                   json = literal
                     [(''status'', get_prop error ''status''),
                      (''message'', get_prop error ''message'')]\<rparr>
             else \<lparr>status = JNum 500,
                   json = literal
                     [(''status'', JStr ''error''),
                      (''message'', JStr ''Something went wrong'')]\<rparr>))
   \<and> (map_of (own err) ''name'' \<noteq> Some (JStr ''CastError'')
        \<and> map_of (own err) ''name'' \<noteq> Some (JStr ''ValidationError'')
        \<and> map_of (own err) ''name'' \<noteq> Some (JStr ''JsonWebTokenError'')
        \<and> map_of (own err) ''name'' \<noteq> Some (JStr ''TokenExpiredError'')
        \<and> map_of (own err) ''code'' \<noteq> Some (JNum 11000) \<longrightarrow>
        globalErrorHandler (Some ''production'') st err =
          Inr (if truthy (get_prop (spread err) ''isOperational'')
               then \<lparr>status = js_or (get_prop err ''statusCode'') (JNum 500),
                     json = literal
                       [(''status'', js_or (get_prop err ''status'') (JStr ''error'')),
                        (''message'', get_prop err ''message'')]\<rparr>
               else \<lparr>status = JNum 500,
                     json = literal
                       [(''status'', JStr ''error''),
                        (''message'', JStr ''Something went wrong'')]\<rparr>))
   \<and> (node_env \<noteq> Some ''production'' \<longrightarrow>
        globalErrorHandler node_env st err =
          Inr \<lparr>status = get_prop (normalize err) ''statusCode'',
               json = literal
                 [(''status'', get_prop (normalize err) ''status''),
                  (''error'', JObj (normalize err)),
                  (''message'', get_prop err ''message''),
                  (''stack'', get_prop err ''stack'')]\<rparr>)"
proof -
  have general: "globalErrorHandler (Some ''production'') st err =
        Inr (if truthy (get_prop error ''isOperational'')
             then \<lparr>status = get_prop error ''statusCode'',
                   json = literal
                     [(''status'', get_prop error ''status''),
                      (''message'', get_prop error ''message'')]\<rparr>
             else \<lparr>status = JNum 500,
                   json = literal
                     [(''status'', JStr ''error''),
                      (''message'', JStr ''Something went wrong'')]\<rparr>)"
    if "reclassify st (normalize err) = Inr error" for error
    using that by (simp add: globalErrorHandler_def Let_def sendErrorProd_def)
  have unmatched: "globalErrorHandler (Some ''production'') st err =
          Inr (if truthy (get_prop (spread err) ''isOperational'')
               then \<lparr>status = js_or (get_prop err ''statusCode'') (JNum 500),
                     json = literal
                       [(''status'', js_or (get_prop err ''status'') (JStr ''error'')),
                        (''message'', get_prop err ''message'')]\<rparr>
               else \<lparr>status = JNum 500,
                     json = literal
                       [(''status'', JStr ''error''),
                        (''message'', JStr ''Something went wrong'')]\<rparr>)"
    if "map_of (own err) ''name'' \<noteq> Some (JStr ''CastError'')"
      and "map_of (own err) ''name'' \<noteq> Some (JStr ''ValidationError'')"
      and "map_of (own err) ''name'' \<noteq> Some (JStr ''JsonWebTokenError'')"
      and "map_of (own err) ''name'' \<noteq> Some (JStr ''TokenExpiredError'')"
      and "map_of (own err) ''code'' \<noteq> Some (JNum 11000)"
    using general [OF reclassify_unmatched [OF that]]
    by (simp add: copy_get copy_statusCode copy_status copy_message get_prop_spread)
  have dev: "globalErrorHandler node_env st err =
          Inr \<lparr>status = get_prop (normalize err) ''statusCode'',
               json = literal
                 [(''status'', get_prop (normalize err) ''status''),
                  (''error'', JObj (normalize err)),
                  (''message'', get_prop err ''message''),
                  (''stack'', get_prop err ''stack'')]\<rparr>"
    if "node_env \<noteq> Some ''production''"
    using that by (simp add: globalErrorHandler_def Let_def sendErrorDev_def normalize_other)
  from general unmatched dev show ?thesis
    by blast
qed

text \<open>C3 at an application error with the code 404, in both modes.\<close>

theorem production_and_development_response_witness:
  "globalErrorHandler (Some ''production'') ''trace'' (AppError ''trace'' ''nope'' 404) =
     Inr \<lparr>status = JNum 404,
          json = literal [(''status'', JStr ''fail''), (''message'', JStr ''nope'')]\<rparr>
   \<and> globalErrorHandler (Some ''development'') ''trace'' (AppError ''trace'' ''nope'' 404) =
     Inr \<lparr>status = JNum 404,
          json = literal
            [(''status'', JStr ''fail''),
             (''error'', JObj (normalize (AppError ''trace'' ''nope'' 404))),
             (''message'', JStr ''nope''),
             (''stack'', JStr ''trace'')]\<rparr>"
proof -
  let ?err = "AppError ''trace'' ''nope'' 404"
  have rc: "reclassify ''trace'' (normalize ?err) =
              Inr (set_prop (spread (normalize ?err)) ''message'' (JStr ''nope''))"
    by (rule reclassify_AppError)
  have dev: "Some ''development'' \<noteq> Some ''production''"
    by simp
  have fail: "get_prop ?err ''status'' = JStr ''fail''"
    by (rule status_fail_4xx) simp_all
  have own: "map_of (own ?err) ''isOperational'' = Some (JBool True)"
    by (simp add: AppError_def)
  have unmatched: "map_of (own ?err) ''name'' = None" "map_of (own ?err) ''code'' = None"
    by (simp_all add: AppError_def)
  from production_and_development_response [of "''trace''" ?err "Some ''development''"]
  show ?thesis
    using rc dev fail own unmatched
    by (simp add: get_prop_set_prop get_prop_spread own_normalize normalize_statusCode
        normalize_status AppError_props js_or_def)
qed

text \<open>
  C3 as it was stated fails for an error that is reclassified: a token error is not
  marked operational, and in production mode the response to it is the 401 of C4, not
  the generic 500.
\<close>

theorem token_error_not_generic:
  "\<not> truthy (get_prop (Object [(''name'', JStr ''JsonWebTokenError'')]
                         [(''message'', JStr ''invalid signature'')]) ''isOperational'')
   \<and> globalErrorHandler (Some ''production'') ''trace''
       (Object [(''name'', JStr ''JsonWebTokenError'')]
               [(''message'', JStr ''invalid signature'')]) =
     Inr \<lparr>status = JNum 401,
          json = literal
            [(''status'', JStr ''fail''),
             (''message'', JStr ''Invalid token. Please log in again.'')]\<rparr>"
proof -
  let ?err = "Object [(''name'', JStr ''JsonWebTokenError'')] [(''message'', JStr ''invalid signature'')]"
  have "reclassify ''trace'' (normalize ?err) = Inr (handleJWTError ''trace'')"
    by (simp add: reclassify_def Let_def copy_get handleJWTError_def AppError_props)
  then have "globalErrorHandler (Some ''production'') ''trace'' ?err =
     Inr \<lparr>status = JNum 401,
          json = literal
            [(''status'', JStr ''fail''),
             (''message'', JStr ''Invalid token. Please log in again.'')]\<rparr>"
    by (simp add: globalErrorHandler_def handleJWTError_def sendErrorProd_AppError
        status_fail_4xx)
  moreover have "\<not> truthy (get_prop ?err ''isOperational'')"
    by (simp add: get_prop_def)
  ultimately show ?thesis
    by simp
qed

subsection \<open>Token errors\<close>

text \<open>
  C4, as amended. In production mode, an error whose own enumerable \<^verbatim>\<open>name\<close> is
  \<^verbatim>\<open>JsonWebTokenError\<close> and whose \<^verbatim>\<open>code\<close> is not 11000 is answered with 401 and the
  message \<^verbatim>\<open>Invalid token. Please log in again.\<close>; one whose own enumerable \<^verbatim>\<open>name\<close> is
  \<^verbatim>\<open>TokenExpiredError\<close> and whose \<^verbatim>\<open>code\<close> is not 11000, with 401 and
  \<^verbatim>\<open>Your token has expired! Please log in again.\<close>
\<close>

theorem token_errors_production:
  assumes "map_of (own err) ''name'' = Some (JStr n)"
    and "n = ''JsonWebTokenError'' \<or> n = ''TokenExpiredError''"
    and "map_of (own err) ''code'' \<noteq> Some (JNum 11000)"
  shows "globalErrorHandler (Some ''production'') st err =
           Inr \<lparr>status = JNum 401,
                json = literal
                  [(''status'', JStr ''fail''),
                   (''message'',
                      JStr (if n = ''JsonWebTokenError''
                            then ''Invalid token. Please log in again.''
                            else ''Your token has expired! Please log in again.''))]\<rparr>"
proof -
  let ?copy = "set_prop (spread (normalize err)) ''message'' (get_prop (normalize err) ''message'')"
  have name: "get_prop ?copy ''name'' = JStr n"
    using assms(1) by (simp add: copy_get)
  have code: "get_prop ?copy ''code'' \<noteq> JNum 11000"
    using assms(3) by (auto simp: copy_get split: option.splits)
  from assms(2) show ?thesis
  proof
    assume n: "n = ''JsonWebTokenError''"
    have "reclassify st (normalize err) = Inr (handleJWTError st)"
      using name code n
      by (simp add: reclassify_def Let_def handleJWTError_def AppError_props)
    then show ?thesis
      using n by (simp add: globalErrorHandler_def handleJWTError_def sendErrorProd_AppError
          status_fail_4xx)
  next
    assume n: "n = ''TokenExpiredError''"
    have "reclassify st (normalize err) = Inr (handleJWTExpiredError st)"
      using name code n
      by (simp add: reclassify_def Let_def handleJWTExpiredError_def AppError_props)
    then show ?thesis
      using n by (simp add: globalErrorHandler_def handleJWTExpiredError_def
          sendErrorProd_AppError status_fail_4xx)
  qed
qed

text \<open>C4 at an expired-token error as the token library builds it.\<close>

theorem token_errors_production_witness:
  "globalErrorHandler (Some ''production'') ''trace''
     (Object [(''name'', JStr ''TokenExpiredError''), (''expiredAt'', JNum 1700000000)]
             [(''message'', JStr ''jwt expired'')]) =
     Inr \<lparr>status = JNum 401,
          json = literal
            [(''status'', JStr ''fail''),
             (''message'', JStr ''Your token has expired! Please log in again.'')]\<rparr>"
  using token_errors_production
      [of "Object [(''name'', JStr ''TokenExpiredError''), (''expiredAt'', JNum 1700000000)]
                  [(''message'', JStr ''jwt expired'')]"
          "''TokenExpiredError''" "''trace''"]
  by simp

text \<open>
  C4 as it was stated fails in two places. An error named \<^verbatim>\<open>JsonWebTokenError\<close> that
  also has the code 11000 is taken by the duplicate-field rule first and answered with
  400. An error whose \<^verbatim>\<open>name\<close> is inherited from its prototype loses it in the copy of
  line 152, is not reclassified, and is answered with the generic 500.
\<close>

theorem token_error_other_answers:
  "globalErrorHandler (Some ''production'') ''trace''
     (Object [(''name'', JStr ''JsonWebTokenError''), (''code'', JNum 11000),
              (''errmsg'', JStr ''dup key: { name: 'x' }'')]
             [(''message'', JStr ''invalid signature'')]) =
     Inr \<lparr>status = JNum 400,
          json = literal
            [(''status'', JStr ''fail''),
             (''message'', JStr ''Duplicate field value: 'x'. Please use another value!'')]\<rparr>
   \<and> get_prop (Object [] [(''message'', JStr ''invalid signature''),
                         (''name'', JStr ''JsonWebTokenError'')]) ''name'' =
       JStr ''JsonWebTokenError''
   \<and> globalErrorHandler (Some ''production'') ''trace''
       (Object [] [(''message'', JStr ''invalid signature''),
                   (''name'', JStr ''JsonWebTokenError'')]) =
     Inr \<lparr>status = JNum 500,
          json = literal
            [(''status'', JStr ''error''), (''message'', JStr ''Something went wrong'')]\<rparr>"
proof -
  let ?dup = "Object [(''name'', JStr ''JsonWebTokenError''), (''code'', JNum 11000),
                      (''errmsg'', JStr ''dup key: { name: 'x' }'')]
                     [(''message'', JStr ''invalid signature'')]"
  let ?inh = "Object [] [(''message'', JStr ''invalid signature''),
                         (''name'', JStr ''JsonWebTokenError'')]"
  have "reclassify ''trace'' (normalize ?dup) =
          Inr (AppError ''trace'' ''Duplicate field value: 'x'. Please use another value!'' 400)"
    by (simp add: reclassify_def Let_def copy_get handleDuplicateFieldsError_def AppError_props
        line_terminator_def)
  then have a: "globalErrorHandler (Some ''production'') ''trace'' ?dup =
     Inr \<lparr>status = JNum 400,
          json = literal
            [(''status'', JStr ''fail''),
             (''message'', JStr ''Duplicate field value: 'x'. Please use another value!'')]\<rparr>"
    by (simp add: globalErrorHandler_def sendErrorProd_AppError status_fail_4xx)
  have "reclassify ''trace'' (normalize ?inh) =
          Inr (set_prop (spread (normalize ?inh)) ''message'' (JStr ''invalid signature''))"
    using reclassify_unmatched [of ?inh "''trace''"] by (simp add: get_prop_def)
  then have b: "globalErrorHandler (Some ''production'') ''trace'' ?inh =
     Inr \<lparr>status = JNum 500,
          json = literal
            [(''status'', JStr ''error''), (''message'', JStr ''Something went wrong'')]\<rparr>"
    by (simp add: globalErrorHandler_def sendErrorProd_def get_prop_set_prop get_prop_spread
        own_normalize)
  show ?thesis
    using a b by (simp add: get_prop_def)
qed

subsection \<open>Duplicate-field errors\<close>

text \<open>
  C10, as amended. In production mode, for an error whose own enumerable \<^verbatim>\<open>code\<close> is
  11000, whose own enumerable \<^verbatim>\<open>name\<close> is not \<^verbatim>\<open>CastError\<close>, and whose \<^verbatim>\<open>errmsg\<close>
  is a string with no quoted substring, the match of the duplicate-field handler is
  \<^verbatim>\<open>null\<close>, indexing it throws inside the responder, and the responder emits no response.
  The handler returns an error only for an \<^verbatim>\<open>errmsg\<close> that is a string with a quoted
  substring.
\<close>

theorem duplicate_field_without_quote:
  assumes "map_of (own err) ''code'' = Some (JNum 11000)"
    and "map_of (own err) ''name'' \<noteq> Some (JStr ''CastError'')"
    and "get_prop err ''errmsg'' = JStr errmsg"
    and "\<not> has_quoted errmsg"
  shows "regex_match errmsg = None
         \<and> handleDuplicateFieldsError st err = Inl TypeError
         \<and> globalErrorHandler (Some ''production'') st err = Inl TypeError
         \<and> (\<forall>e' a. handleDuplicateFieldsError st e' = Inr a \<longrightarrow>
               (\<exists>m. get_prop e' ''errmsg'' = JStr m \<and> has_quoted m))"
proof -
  let ?copy = "set_prop (spread (normalize err)) ''message'' (get_prop (normalize err) ''message'')"
  have none: "regex_match errmsg = None"
    using assms(4) regex_match_quoted by (cases "regex_match errmsg") auto
  have name: "get_prop ?copy ''name'' \<noteq> JStr ''CastError''"
    using assms(2) by (auto simp: copy_get split: option.splits)
  have code: "get_prop ?copy ''code'' = JNum 11000"
    using assms(1) by (simp add: copy_get)
  have "get_prop ?copy ''errmsg'' =
          (case map_of (own err) ''errmsg'' of Some v \<Rightarrow> v | None \<Rightarrow> JUndefined)"
    by (simp add: copy_get)
  moreover have "map_of (own err) ''errmsg'' = None \<or> map_of (own err) ''errmsg'' = Some (JStr errmsg)"
    using assms(3) by (auto simp: get_prop_def split: option.splits)
  ultimately have "get_prop ?copy ''errmsg'' = JStr errmsg \<or> get_prop ?copy ''errmsg'' = JUndefined"
    by auto
  then have dup: "handleDuplicateFieldsError st ?copy = Inl TypeError"
    using none by (auto simp: handleDuplicateFieldsError_def)
  have "reclassify st (normalize err) = Inl TypeError"
    using name code dup by (simp add: reclassify_def Let_def)
  then have responder: "globalErrorHandler (Some ''production'') st err = Inl TypeError"
    by (simp add: globalErrorHandler_def)
  have here: "handleDuplicateFieldsError st err = Inl TypeError"
    using assms(3) none by (simp add: handleDuplicateFieldsError_def)
  have only: "\<exists>m. get_prop e' ''errmsg'' = JStr m \<and> has_quoted m"
    if "handleDuplicateFieldsError st e' = Inr a" for e' a
    using that
    by (auto simp: handleDuplicateFieldsError_def split: jsval.splits option.splits
        dest: regex_match_quoted)
  from none here responder only show ?thesis
    by blast
qed

text \<open>C10 at a duplicate-key error whose text quotes nothing.\<close>

theorem duplicate_field_without_quote_witness:
  "\<not> has_quoted ''E11000 duplicate key error''
   \<and> regex_match ''E11000 duplicate key error'' = None
   \<and> globalErrorHandler (Some ''production'') ''trace''
       (Object [(''code'', JNum 11000), (''errmsg'', JStr ''E11000 duplicate key error'')]
               [(''message'', JStr ''E11000 duplicate key error''),
                (''name'', JStr ''MongoError'')]) = Inl TypeError"
  using duplicate_field_without_quote
      [of "Object [(''code'', JNum 11000), (''errmsg'', JStr ''E11000 duplicate key error'')]
                  [(''message'', JStr ''E11000 duplicate key error''),
                   (''name'', JStr ''MongoError'')]"
          "''E11000 duplicate key error''" "''trace''"]
  by (simp add: get_prop_def)

text \<open>
  C10 as it was stated fails in two places. An error with the code 11000 and the own
  name \<^verbatim>\<open>CastError\<close> is taken by the cast rule first, the result has no code, and the
  responder answers 400. An error whose \<^verbatim>\<open>code\<close> is inherited from its prototype loses
  it in the copy of line 152, and the responder answers with the generic 500.
\<close>

theorem duplicate_code_answered:
  "\<not> has_quoted ''E11000 duplicate key error''
   \<and> globalErrorHandler (Some ''production'') ''trace''
       (Object [(''name'', JStr ''CastError''), (''code'', JNum 11000),
                (''errmsg'', JStr ''E11000 duplicate key error'')]
               [(''message'', JStr ''Cast failed'')]) =
     Inr \<lparr>status = JNum 400,
          json = literal
            [(''status'', JStr ''fail''),
             (''message'', JStr ''Invalid undefined: undefined'')]\<rparr>
   \<and> get_prop (Object [(''errmsg'', JStr ''E11000 duplicate key error'')]
                      [(''code'', JNum 11000)]) ''code'' = JNum 11000
   \<and> globalErrorHandler (Some ''production'') ''trace''
       (Object [(''errmsg'', JStr ''E11000 duplicate key error'')]
               [(''code'', JNum 11000)]) =
     Inr \<lparr>status = JNum 500,
          json = literal
            [(''status'', JStr ''error''), (''message'', JStr ''Something went wrong'')]\<rparr>"
proof -
  let ?cast = "Object [(''name'', JStr ''CastError''), (''code'', JNum 11000),
                       (''errmsg'', JStr ''E11000 duplicate key error'')]
                      [(''message'', JStr ''Cast failed'')]"
  let ?inh = "Object [(''errmsg'', JStr ''E11000 duplicate key error'')] [(''code'', JNum 11000)]"
  have "reclassify ''trace'' (normalize ?cast) =
          Inr (AppError ''trace'' ''Invalid undefined: undefined'' 400)"
    by (simp add: reclassify_def Let_def copy_get handleCastError_def AppError_props)
  then have a: "globalErrorHandler (Some ''production'') ''trace'' ?cast =
     Inr \<lparr>status = JNum 400,
          json = literal
            [(''status'', JStr ''fail''),
             (''message'', JStr ''Invalid undefined: undefined'')]\<rparr>"
    by (simp add: globalErrorHandler_def sendErrorProd_AppError status_fail_4xx)
  have "reclassify ''trace'' (normalize ?inh) =
          Inr (set_prop (spread (normalize ?inh)) ''message'' JUndefined)"
    using reclassify_unmatched [of ?inh "''trace''"] by (simp add: get_prop_def)
  then have b: "globalErrorHandler (Some ''production'') ''trace'' ?inh =
     Inr \<lparr>status = JNum 500,
          json = literal
            [(''status'', JStr ''error''), (''message'', JStr ''Something went wrong'')]\<rparr>"
    by (simp add: globalErrorHandler_def sendErrorProd_def get_prop_set_prop get_prop_spread
        own_normalize)
  show ?thesis
    using a b by (simp add: get_prop_def)
qed

section \<open>Properties of the 404 handler\<close>




end
